theory Spec2Isabelle
  imports Complex_Main "HOL-Library.AList"
begin

section \<open>Mini-PestMA: JSON extraction, fallback records and the three-stage pipeline\<close>

text \<open>
  The theory embeds the core of \<^verbatim>\<open>src/mini_pestma_main.py\<close> (class
  \<^verbatim>\<open>LocalMiniPestMA\<close>) and of \<^verbatim>\<open>src/streamlit_optimized_app.py\<close> (class
  \<^verbatim>\<open>StreamlitMiniPestMA\<close>): \<^verbatim>\<open>_extract_json\<close>, \<^verbatim>\<open>_create_fallback_json\<close> and
  \<^verbatim>\<open>analyze_plant_problem\<close>.  The Python library functions the code calls
  (\<^verbatim>\<open>str.strip\<close>, \<^verbatim>\<open>json.loads\<close>, \<^verbatim>\<open>re.findall\<close>, \<^verbatim>\<open>re.search\<close>, the constructor of
  \<^verbatim>\<open>json.JSONDecodeError\<close>) are modelled first, as executable functions.

  Texts are strings of 8-bit characters, read as code points below 256.
\<close>

subsection \<open>Python values and exceptions\<close>

text \<open>
  A value returned by \<^verbatim>\<open>json.loads\<close>.  A Python \<^verbatim>\<open>dict\<close> keeps its keys in insertion
  order and holds each key once: an association list updated with \<^const>\<open>AList.update\<close>.
  A float is kept as the text of its literal (its floating-point value is not computed).
\<close>

datatype json =
    JNull
  | JBool bool
  | JInt int
  | JFloat string
  | JStr string
  | JArr "json list"
  | JObj "(string \<times> json) list"

text \<open>The exceptions the code raises or catches; the argument is \<^verbatim>\<open>str(e)\<close>.
  \<open>OtherException\<close> stands for any other subclass of \<^verbatim>\<open>Exception\<close> (the failures of
  the model call).\<close>

datatype py_error =
    JSONDecodeError string
  | TypeError string
  | IndexError string
  | AttributeError string
  | OtherException string

fun str_of :: "py_error \<Rightarrow> string" where
  "str_of (JSONDecodeError m) = m"
| "str_of (TypeError m) = m"
| "str_of (IndexError m) = m"
| "str_of (AttributeError m) = m"
| "str_of (OtherException m) = m"

fun is_JSONDecodeError :: "py_error \<Rightarrow> bool" where
  "is_JSONDecodeError (JSONDecodeError m) = True"
| "is_JSONDecodeError e = False"

text \<open>
  \<^verbatim>\<open>class JSONDecodeError(ValueError): def __init__(self, msg, doc, pos)\<close>: the constructor
  has three required positional parameters.  Called with another number of arguments it
  raises \<^verbatim>\<open>TypeError\<close> and no \<^verbatim>\<open>JSONDecodeError\<close> object comes to exist.  The argument
  list is given as the texts of the arguments.
\<close>

definition missing_args_message :: string where
  "missing_args_message =
     ''JSONDecodeError.__init__() missing 2 required positional arguments: '' @
     [CHR 0x27] @ ''doc'' @ [CHR 0x27] @ '' and '' @ [CHR 0x27] @ ''pos'' @ [CHR 0x27]"

fun new_JSONDecodeError :: "string list \<Rightarrow> py_error" where
  "new_JSONDecodeError [msg, doc, pos] = JSONDecodeError msg"
| "new_JSONDecodeError [msg] = TypeError missing_args_message"
| "new_JSONDecodeError args = TypeError ''JSONDecodeError.__init__() called with a wrong number of arguments''"

subsection \<open>Strings: \<^verbatim>\<open>str.strip\<close> and slicing\<close>

text \<open>\<^verbatim>\<open>str.isspace\<close> on the code points below 256: tab, line feed, vertical tab, form
  feed, carriage return, the four separators 28 to 31, the space, next line (133) and the
  no-break space (160).  The class \<^verbatim>\<open>\s\<close> of a \<^verbatim>\<open>str\<close> pattern is the same set.\<close>

definition py_isspace :: "char \<Rightarrow> bool" where
  "py_isspace c = (of_char c \<in> set [9, 10, 11, 12, 13, 28, 29, 30, 31, 32, 133, 160 :: nat])"

definition strip :: "string \<Rightarrow> string" where
  "strip s = rev (dropWhile py_isspace (rev (dropWhile py_isspace s)))"

subsection \<open>\<^verbatim>\<open>json.loads\<close>\<close>

datatype token =
    TLBrace | TRBrace | TLBrack | TRBrack | TColon | TComma
  | TStr string
  | TVal json

definition json_ws :: "char \<Rightarrow> bool" where
  "json_ws c = (c = CHR '' '' \<or> c = CHR 0x09 \<or> c = CHR 0x0A \<or> c = CHR 0x0D)"

definition is_digit :: "char \<Rightarrow> bool" where
  "is_digit c = (c \<in> set ''0123456789'')"

definition is_hex :: "char \<Rightarrow> bool" where
  "is_hex c = (c \<in> set ''0123456789abcdefABCDEF'')"

definition hex_val :: "char \<Rightarrow> nat" where
  "hex_val c =
     (if is_digit c then of_char c - 48
      else if c \<in> set ''abcdef'' then of_char c - 87
      else of_char c - 55)"

definition digits_val :: "string \<Rightarrow> int" where
  "digits_val ds = foldl (\<lambda>a c. 10 * a + int (of_char c - (48::nat))) 0 ds"

text \<open>The escapes of a JSON string after the backslash (\<^verbatim>\<open>BACKSLASH\<close> in
  \<^verbatim>\<open>json.decoder\<close>); \<^verbatim>\<open>\u\<close> is treated apart.\<close>

definition unescape :: "char \<Rightarrow> char option" where
  "unescape e =
     (if e = CHR 0x22 then Some (CHR 0x22)
      else if e = CHR 0x5C then Some (CHR 0x5C)
      else if e = CHR ''/'' then Some (CHR ''/'')
      else if e = CHR ''b'' then Some (CHR 0x08)
      else if e = CHR ''f'' then Some (CHR 0x0C)
      else if e = CHR ''n'' then Some (CHR 0x0A)
      else if e = CHR ''r'' then Some (CHR 0x0D)
      else if e = CHR ''t'' then Some (CHR 0x09)
      else None)"

text \<open>An escape \<^verbatim>\<open>\uXXXX\<close> below 256 is the character with that code; a larger one does
  not fit a character and is kept as the six characters of the escape.\<close>

definition decode_u :: "char \<Rightarrow> char \<Rightarrow> char \<Rightarrow> char \<Rightarrow> string" where
  "decode_u a b c d =
     (let n = ((hex_val a * 16 + hex_val b) * 16 + hex_val c) * 16 + hex_val d
      in if n < 256 then [char_of n] else [CHR 0x5C, CHR ''u'', a, b, c, d])"

text \<open>\<^verbatim>\<open>scanstring\<close> (strict): the input stands after the opening quote; the result is the
  decoded string and the input after the closing quote.  The accumulator is reversed.\<close>

fun scanstring :: "string \<Rightarrow> string \<Rightarrow> (string \<times> string) option" where
  "scanstring acc [] = None"
| "scanstring acc (c # cs) =
     (if c = CHR 0x22 then Some (rev acc, cs)
      else if c = CHR 0x5C then
        (case cs of
           [] \<Rightarrow> None
         | e # es \<Rightarrow>
             if e = CHR ''u'' then
               (case es of
                  a # b # x # d # rest \<Rightarrow>
                    if is_hex a \<and> is_hex b \<and> is_hex x \<and> is_hex d
                    then scanstring (rev (decode_u a b x d) @ acc) rest else None
                | _ \<Rightarrow> None)
             else (case unescape e of
                     None \<Rightarrow> None
                   | Some u \<Rightarrow> scanstring (u # acc) es))
      else if (of_char c :: nat) < 32 then None
      else scanstring (c # acc) cs)"

text \<open>\<^verbatim>\<open>NUMBER_RE = (-?(?:0|[1-9]\d*))(\.\d+)?([eE][-+]?\d+)?\<close>: the longest literal at the
  head of the input.  Without fraction and exponent it is an \<^verbatim>\<open>int\<close>, else a \<^verbatim>\<open>float\<close>.\<close>

definition scan_int_part :: "string \<Rightarrow> (string \<times> string) option" where
  "scan_int_part s =
     (case s of
        [] \<Rightarrow> None
      | c # cs \<Rightarrow>
          if c = CHR ''0'' then Some ([c], cs)
          else if is_digit c then Some (c # takeWhile is_digit cs, dropWhile is_digit cs)
          else None)"

definition scan_frac :: "string \<Rightarrow> string \<times> string" where
  "scan_frac s =
     (case s of
        c # d # cs \<Rightarrow>
          if c = CHR ''.'' \<and> is_digit d
          then (c # d # takeWhile is_digit cs, dropWhile is_digit cs) else ([], s)
      | _ \<Rightarrow> ([], s))"

definition scan_exp :: "string \<Rightarrow> string \<times> string" where
  "scan_exp s =
     (case s of
        e # cs \<Rightarrow>
          if e = CHR ''e'' \<or> e = CHR ''E'' then
            (case cs of
               g # d # ds \<Rightarrow>
                 if (g = CHR ''+'' \<or> g = CHR ''-'') \<and> is_digit d
                 then (e # g # d # takeWhile is_digit ds, dropWhile is_digit ds)
                 else if is_digit g
                 then (e # g # takeWhile is_digit (d # ds), dropWhile is_digit (d # ds))
                 else ([], s)
             | [g] \<Rightarrow> if is_digit g then ([e, g], []) else ([], s)
             | [] \<Rightarrow> ([], s))
          else ([], s)
      | [] \<Rightarrow> ([], s))"

definition scan_number :: "string \<Rightarrow> (json \<times> string) option" where
  "scan_number s =
     (let (neg, s1) = (case s of c # cs \<Rightarrow> if c = CHR ''-'' then (True, cs) else (False, s)
                       | [] \<Rightarrow> (False, s))
      in case scan_int_part s1 of
           None \<Rightarrow> None
         | Some (ds, s2) \<Rightarrow>
             (let (fr, s3) = scan_frac s2; (ex, s4) = scan_exp s3
              in if fr = [] \<and> ex = []
                 then Some (JInt (if neg then - digits_val ds else digits_val ds), s2)
                 else Some (JFloat ((if neg then ''-'' else []) @ ds @ fr @ ex), s4)))"

text \<open>The words of \<^verbatim>\<open>json.scanner\<close>, in the order it tries them: \<^verbatim>\<open>null\<close>, \<^verbatim>\<open>true\<close>,
  \<^verbatim>\<open>false\<close>, a number, \<^verbatim>\<open>NaN\<close>, \<^verbatim>\<open>Infinity\<close>, \<^verbatim>\<open>-Infinity\<close>.\<close>

definition after_prefix :: "string \<Rightarrow> string \<Rightarrow> string option" where
  "after_prefix p s = (if take (length p) s = p then Some (drop (length p) s) else None)"

fun first_some :: "'a option list \<Rightarrow> 'a option" where
  "first_some [] = None"
| "first_some (None # xs) = first_some xs"
| "first_some (Some x # xs) = Some x"

definition scan_word :: "string \<Rightarrow> (json \<times> string) option" where
  "scan_word s = first_some
     [map_option (Pair JNull) (after_prefix ''null'' s),
      map_option (Pair (JBool True)) (after_prefix ''true'' s),
      map_option (Pair (JBool False)) (after_prefix ''false'' s),
      scan_number s,
      map_option (Pair (JFloat ''NaN'')) (after_prefix ''NaN'' s),
      map_option (Pair (JFloat ''Infinity'')) (after_prefix ''Infinity'' s),
      map_option (Pair (JFloat ''-Infinity'')) (after_prefix ''-Infinity'' s)]"

lemma scanstring_shorter: "scanstring acc s = Some (r, rest) \<Longrightarrow> length rest < length s"
proof (induction s arbitrary: acc rule: length_induct)
  case (1 s)
  note IH = "1.IH" [rule_format]
  show ?case
  proof (cases s)
    case Nil
    with "1.prems" show ?thesis by simp
  next
    case (Cons c cs)
    have step: "\<And>a t. scanstring a t = Some (r, rest) \<Longrightarrow> length t \<le> length cs \<Longrightarrow>
        length rest < length t"
      using IH Cons by simp
    from "1.prems" Cons show ?thesis
      by (auto split: if_splits list.splits option.splits dest!: step)
  qed
qed

lemma after_prefix_shorter: "after_prefix p s = Some r \<Longrightarrow> p \<noteq> [] \<Longrightarrow> length r < length s"
  by (cases s; cases p) (auto simp: after_prefix_def split: if_splits)

lemma scan_int_part_shorter: "scan_int_part s = Some (ds, r) \<Longrightarrow> length r < length s"
  unfolding scan_int_part_def
  by (cases s) (auto simp: less_Suc_eq_le length_dropWhile_le split: if_splits)

lemma scan_frac_shorter: "scan_frac s = (fr, r) \<Longrightarrow> length r \<le> length s"
  unfolding scan_frac_def
  by (auto simp: le_SucI length_dropWhile_le split: list.splits if_splits)

lemma scan_exp_shorter: "scan_exp s = (ex, r) \<Longrightarrow> length r \<le> length s"
  unfolding scan_exp_def
  by (auto simp: le_SucI length_dropWhile_le split: list.splits if_splits)

lemma scan_number_shorter:
  assumes "scan_number s = Some (j, r)"
  shows "length r < length s"
proof -
  obtain neg s1 where s1: "(case s of c # cs \<Rightarrow> if c = CHR ''-'' then (True, cs) else (False, s)
      | [] \<Rightarrow> (False, s)) = (neg, s1)"
    by (cases "(case s of c # cs \<Rightarrow> if c = CHR ''-'' then (True, cs) else (False, s)
      | [] \<Rightarrow> (False, s))") blast
  then have l1: "length s1 \<le> length s"
    by (auto split: list.splits if_splits)
  from assms s1 obtain ds s2 where i: "scan_int_part s1 = Some (ds, s2)"
    by (auto simp: scan_number_def split: option.splits)
  obtain fr s3 where f: "scan_frac s2 = (fr, s3)" by (cases "scan_frac s2") blast
  obtain ex s4 where e: "scan_exp s3 = (ex, s4)" by (cases "scan_exp s3") blast
  from assms s1 i f e have "r = s2 \<or> r = s4"
    by (auto simp: scan_number_def split: if_splits)
  with scan_int_part_shorter [OF i] scan_frac_shorter [OF f] scan_exp_shorter [OF e] l1
  show ?thesis by auto
qed

lemma first_some_in: "first_some xs = Some y \<Longrightarrow> Some y \<in> set xs"
  by (induction xs rule: first_some.induct) auto

lemma after_prefix_pair_shorter: "map_option (Pair a) (after_prefix p s) = Some (j, r) \<Longrightarrow> p \<noteq> [] \<Longrightarrow> length r < length s"
  by (cases "after_prefix p s") (auto dest: after_prefix_shorter)

lemma scan_word_shorter:
  assumes "scan_word s = Some (j, r)"
  shows "length r < length s"
proof -
  have "Some (j, r) \<in> set
     [map_option (Pair JNull) (after_prefix ''null'' s),
      map_option (Pair (JBool True)) (after_prefix ''true'' s),
      map_option (Pair (JBool False)) (after_prefix ''false'' s),
      scan_number s,
      map_option (Pair (JFloat ''NaN'')) (after_prefix ''NaN'' s),
      map_option (Pair (JFloat ''Infinity'')) (after_prefix ''Infinity'' s),
      map_option (Pair (JFloat ''-Infinity'')) (after_prefix ''-Infinity'' s)]"
    using assms unfolding scan_word_def by (rule first_some_in)
  then have "map_option (Pair JNull) (after_prefix ''null'' s) = Some (j, r)
    \<or> map_option (Pair (JBool True)) (after_prefix ''true'' s) = Some (j, r)
    \<or> map_option (Pair (JBool False)) (after_prefix ''false'' s) = Some (j, r)
    \<or> scan_number s = Some (j, r)
    \<or> map_option (Pair (JFloat ''NaN'')) (after_prefix ''NaN'' s) = Some (j, r)
    \<or> map_option (Pair (JFloat ''Infinity'')) (after_prefix ''Infinity'' s) = Some (j, r)
    \<or> map_option (Pair (JFloat ''-Infinity'')) (after_prefix ''-Infinity'' s) = Some (j, r)"
    by (simp only: list.set insert_iff empty_iff) (simp only: eq_commute [of "Some (j, r)"] simp_thms)
  then show ?thesis
    by (elim disjE) (erule after_prefix_pair_shorter, simp | erule scan_number_shorter)+
qed

text \<open>The tokens of a text, with the white space of JSON (space, tab, line feed, carriage
  return) skipped between them; \<open>None\<close> when some character starts no token.\<close>

function tokens :: "string \<Rightarrow> token list option" where
  "tokens [] = Some []"
| "tokens (c # cs) =
     (if json_ws c then tokens cs
      else if c = CHR ''{'' then map_option (Cons TLBrace) (tokens cs)
      else if c = CHR ''}'' then map_option (Cons TRBrace) (tokens cs)
      else if c = CHR ''['' then map_option (Cons TLBrack) (tokens cs)
      else if c = CHR '']'' then map_option (Cons TRBrack) (tokens cs)
      else if c = CHR '':'' then map_option (Cons TColon) (tokens cs)
      else if c = CHR '','' then map_option (Cons TComma) (tokens cs)
      else if c = CHR 0x22 then
        (case scanstring [] cs of
           None \<Rightarrow> None
         | Some (s, rest) \<Rightarrow> map_option (Cons (TStr s)) (tokens rest))
      else
        (case scan_word (c # cs) of
           None \<Rightarrow> None
         | Some (j, rest) \<Rightarrow> map_option (Cons (TVal j)) (tokens rest)))"
  by pat_completeness auto
termination
proof (relation "measure length")
  show "wf (measure length)" by simp
qed (auto dest: scanstring_shorter scan_word_shorter)

text \<open>
  The grammar, as \<^verbatim>\<open>JSONObject\<close>, \<^verbatim>\<open>JSONArray\<close> and \<^verbatim>\<open>scan_once\<close> of \<^verbatim>\<open>json.decoder\<close>
  read it, run as a pushdown automaton over the tokens.  A frame of the stack is an
  array with the elements read so far (latest first), or an object with the pairs read
  so far and the key whose value is being read.
\<close>

datatype frame = FArr "json list" | FObj "(string \<times> json) list" string

datatype pstate =
    PValue
  | PArrFirst
  | PObjFirst
  | PKey "(string \<times> json) list"
  | PColon
  | PAfter json

fun open_value :: "token \<Rightarrow> pstate option" where
  "open_value (TVal j) = Some (PAfter j)"
| "open_value (TStr s) = Some (PAfter (JStr s))"
| "open_value TLBrack = Some PArrFirst"
| "open_value TLBrace = Some PObjFirst"
| "open_value t = None"

fun pda :: "frame list \<Rightarrow> pstate \<Rightarrow> token list \<Rightarrow> json option" where
  "pda [] (PAfter j) [] = Some j"
| "pda st q [] = None"
| "pda st PValue (t # ts) =
     (case open_value t of None \<Rightarrow> None | Some q \<Rightarrow> pda st q ts)"
| "pda st PArrFirst (t # ts) =
     (if t = TRBrack then pda st (PAfter (JArr [])) ts
      else case open_value t of None \<Rightarrow> None | Some q \<Rightarrow> pda (FArr [] # st) q ts)"
| "pda st PObjFirst (t # ts) =
     (case t of
        TRBrace \<Rightarrow> pda st (PAfter (JObj [])) ts
      | TStr k \<Rightarrow> pda (FObj [] k # st) PColon ts
      | _ \<Rightarrow> None)"
| "pda st (PKey ps) (t # ts) =
     (case t of TStr k \<Rightarrow> pda (FObj ps k # st) PColon ts | _ \<Rightarrow> None)"
| "pda st PColon (t # ts) = (if t = TColon then pda st PValue ts else None)"
| "pda [] (PAfter j) (t # ts) = None"
| "pda (FArr es # st) (PAfter j) (t # ts) =
     (if t = TComma then pda (FArr (j # es) # st) PValue ts
      else if t = TRBrack then pda st (PAfter (JArr (rev (j # es)))) ts
      else None)"
| "pda (FObj ps k # st) (PAfter j) (t # ts) =
     (if t = TComma then pda st (PKey (AList.update k j ps)) ts
      else if t = TRBrace then pda st (PAfter (JObj (AList.update k j ps))) ts
      else None)"

text \<open>\<^verbatim>\<open>json.loads(s)\<close>: the value of the text, or \<open>None\<close> where Python raises
  \<^verbatim>\<open>json.JSONDecodeError\<close>.\<close>

definition json_loads :: "string \<Rightarrow> json option" where
  "json_loads s = (case tokens s of None \<Rightarrow> None | Some ts \<Rightarrow> pda [] PValue ts)"

subsection \<open>Regular expressions: \<^verbatim>\<open>re.findall\<close> and \<^verbatim>\<open>re.search\<close>\<close>

text \<open>
  The patterns of the code use literals, the class \<^verbatim>\<open>[^{}]\<close>, \<^verbatim>\<open>.\<close> under \<^verbatim>\<open>re.DOTALL\<close>
  (any character), \<^verbatim>\<open>\s\<close>, concatenation, alternation, the greedy star, the lazy star
  \<^verbatim>\<open>*?\<close> and one capturing group; \<^verbatim>\<open>(?:...)\<close> only groups and has no constructor.
\<close>

datatype regex =
    Eps
  | Lit char
  | NotIn "char list"
  | Dot
  | Space
  | Seq regex regex
  | Alt regex regex
  | Star regex
  | Lazy regex
  | Group regex

text \<open>
  A matching state is the input still to read and the text captured by group 1.
  \<open>ends r st\<close> lists the states in which a match of \<open>r\<close> started in \<open>st\<close> can end, in
  the order in which the backtracking matcher of \<^verbatim>\<open>re\<close> tries them: a greedy star tries
  one more iteration before it stops, a lazy star stops before it tries one more, an
  alternation tries its left side first.  An iteration that consumes nothing is not
  repeated.
\<close>

function ends :: "regex \<Rightarrow> string \<times> string option \<Rightarrow> (string \<times> string option) list" where
  "ends Eps (s, g) = [(s, g)]"
| "ends (Lit c) (s, g) = (case s of [] \<Rightarrow> [] | x # xs \<Rightarrow> if x = c then [(xs, g)] else [])"
| "ends (NotIn cs) (s, g) = (case s of [] \<Rightarrow> [] | x # xs \<Rightarrow> if x \<notin> set cs then [(xs, g)] else [])"
| "ends Dot (s, g) = (case s of [] \<Rightarrow> [] | x # xs \<Rightarrow> [(xs, g)])"
| "ends Space (s, g) = (case s of [] \<Rightarrow> [] | x # xs \<Rightarrow> if py_isspace x then [(xs, g)] else [])"
| "ends (Seq a b) (s, g) = concat (map (ends b) (ends a (s, g)))"
| "ends (Alt a b) (s, g) = ends a (s, g) @ ends b (s, g)"
| "ends (Star r) (s, g) =
     concat (map (ends (Star r)) (filter (\<lambda>st. length (fst st) < length s) (ends r (s, g))))
     @ [(s, g)]"
| "ends (Lazy r) (s, g) =
     (s, g) #
     concat (map (ends (Lazy r)) (filter (\<lambda>st. length (fst st) < length s) (ends r (s, g))))"
| "ends (Group r) (s, g) =
     map (\<lambda>st. (fst st, Some (take (length s - length (fst st)) s))) (ends r (s, g))"
  by pat_completeness auto
termination
  by (relation "measure size <*lex*> measure (\<lambda>st. length (fst st))") auto

fun has_group :: "regex \<Rightarrow> bool" where
  "has_group (Seq a b) = (has_group a \<or> has_group b)"
| "has_group (Alt a b) = (has_group a \<or> has_group b)"
| "has_group (Star r) = has_group r"
| "has_group (Lazy r) = has_group r"
| "has_group (Group r) = True"
| "has_group r = False"

text \<open>\<^verbatim>\<open>re.search(pattern, text)\<close>: the first match at the leftmost position where one
  starts, as the matched text and the capture of group 1; \<open>None\<close> when there is none.\<close>

fun re_search :: "regex \<Rightarrow> string \<Rightarrow> (string \<times> string option) option" where
  "re_search r [] =
     (case ends r ([], None) of [] \<Rightarrow> None | st # _ \<Rightarrow> Some ([], snd st))"
| "re_search r (c # cs) =
     (case ends r (c # cs, None) of
        [] \<Rightarrow> re_search r cs
      | st # _ \<Rightarrow> Some (take (length (c # cs) - length (fst st)) (c # cs), snd st))"

text \<open>\<^verbatim>\<open>match.group(1)\<close>: \<^verbatim>\<open>IndexError\<close> when the pattern has no group 1; the capture
  otherwise (\<open>None\<close> for a group that took no part in the match).\<close>

definition group1 :: "regex \<Rightarrow> string \<times> string option \<Rightarrow> py_error + string option" where
  "group1 r m = (if has_group r then Inr (snd m) else Inl (IndexError ''no such group''))"

text \<open>\<^verbatim>\<open>re.findall(pattern, text)\<close> for a pattern without capturing group: the matched
  texts, left to right, each search starting where the match before ended (one character
  further after an empty match).\<close>

function re_findall :: "regex \<Rightarrow> string \<Rightarrow> string list" where
  "re_findall r [] = (case ends r ([], None) of [] \<Rightarrow> [] | st # _ \<Rightarrow> [[]])"
| "re_findall r (c # cs) =
     (case ends r (c # cs, None) of
        [] \<Rightarrow> re_findall r cs
      | st # _ \<Rightarrow>
          take (length (c # cs) - length (fst st)) (c # cs) #
          (if length (fst st) < length (c # cs) then re_findall r (fst st)
           else re_findall r cs))"
  by pat_completeness auto
termination
  by (relation "measure (\<lambda>p. length (snd p))") auto

subsection \<open>\<^verbatim>\<open>LocalMiniPestMA._extract_json\<close>\<close>

definition not_brace :: regex where
  "not_brace = NotIn ''{}''"

text \<open>\<^verbatim>\<open>\{[^{}]*(?:\{[^{}]*\}[^{}]*)*\}\<close>\<close>

definition pattern_simple_nested :: regex where
  "pattern_simple_nested =
     Seq (Lit CHR ''{'') (Seq (Star not_brace)
       (Seq (Star (Seq (Lit CHR ''{'') (Seq (Star not_brace) (Seq (Lit CHR ''}'') (Star not_brace)))))
         (Lit CHR ''}'')))"

text \<open>\<^verbatim>\<open>\{(?:[^{}]|(?:\{[^{}]*\}))*\}\<close>\<close>

definition pattern_complex_nested :: regex where
  "pattern_complex_nested =
     Seq (Lit CHR ''{'')
       (Seq (Star (Alt not_brace (Seq (Lit CHR ''{'') (Seq (Star not_brace) (Lit CHR ''}'')))))
         (Lit CHR ''}''))"

definition json_patterns :: "regex list" where
  "json_patterns = [pattern_simple_nested, pattern_complex_nested]"

fun lits :: "string \<Rightarrow> regex" where
  "lits [] = Eps"
| "lits (c # cs) = Seq (Lit c) (lits cs)"

text \<open>\<^verbatim>\<open>```json\s*(.*?)\s*```\<close>, \<^verbatim>\<open>```\s*(.*?)\s*```\<close> and \<^verbatim>\<open>\{.*\}\<close>, each with
  \<^verbatim>\<open>re.DOTALL\<close>.\<close>

definition marker_json_fence :: regex where
  "marker_json_fence =
     Seq (lits ''```json'') (Seq (Star Space) (Seq (Group (Lazy Dot)) (Seq (Star Space)
       (lits ''```''))))"

definition marker_fence :: regex where
  "marker_fence =
     Seq (lits ''```'') (Seq (Star Space) (Seq (Group (Lazy Dot)) (Seq (Star Space)
       (lits ''```''))))"

definition marker_braces :: regex where
  "marker_braces = Seq (Lit CHR ''{'') (Seq (Star Dot) (Lit CHR ''}''))"

definition markers :: "regex list" where
  "markers = [marker_json_fence, marker_fence, marker_braces]"

text \<open>The steps of the cascade a call goes through, in order: the parse of the whole
  text, each call of \<^verbatim>\<open>re.findall\<close> and each call of \<^verbatim>\<open>re.search\<close>.\<close>

datatype step = ParseWhole | FindAll regex | Search regex

text \<open>\<^verbatim>\<open>for match in matches: try: return json.loads(match.strip())
  except json.JSONDecodeError: continue\<close>\<close>

fun try_matches :: "string list \<Rightarrow> json option" where
  "try_matches [] = None"
| "try_matches (m # ms) =
     (case json_loads (strip m) of Some v \<Rightarrow> Some v | None \<Rightarrow> try_matches ms)"

text \<open>\<^verbatim>\<open>for pattern in json_patterns: matches = re.findall(pattern, text, re.DOTALL); ...\<close>\<close>

fun try_patterns :: "regex list \<Rightarrow> string \<Rightarrow> step list \<times> json option" where
  "try_patterns [] text = ([], None)"
| "try_patterns (p # ps) text =
     (case try_matches (re_findall p text) of
        Some v \<Rightarrow> ([FindAll p], Some v)
      | None \<Rightarrow> (case try_patterns ps text of (l, r) \<Rightarrow> (FindAll p # l, r)))"

text \<open>
  \<^verbatim>\<open>for pattern, flags in markers: match = re.search(pattern, text, flags)
  if match: try: return json.loads(match.group(1).strip())
  except (json.JSONDecodeError, IndexError): continue\<close>

  The result is \<open>Inr (Some v)\<close> when the loop returns \<open>v\<close>, \<open>Inr None\<close> when it ends, and
  \<open>Inl e\<close> when an exception the handler does not catch leaves it (\<^verbatim>\<open>None.strip()\<close>).
\<close>

fun try_markers :: "regex list \<Rightarrow> string \<Rightarrow> step list \<times> (py_error + json option)" where
  "try_markers [] text = ([], Inr None)"
| "try_markers (p # ps) text =
     (let continue = (case try_markers ps text of (l, r) \<Rightarrow> (Search p # l, r))
      in case re_search p text of
           None \<Rightarrow> continue
         | Some m \<Rightarrow>
             (case group1 p m of
                Inl e \<Rightarrow> continue
              | Inr None \<Rightarrow>
                  ([Search p], Inl (AttributeError ''NoneType object has no attribute strip''))
              | Inr (Some g) \<Rightarrow>
                  (case json_loads (strip g) of
                     Some v \<Rightarrow> ([Search p], Inr (Some v))
                   | None \<Rightarrow> continue)))"

text \<open>The whole function, with the steps it went through.  The last line builds the
  exception from one argument, the message with \<^verbatim>\<open>text[:200]\<close>.\<close>

definition LocalMiniPestMA_extract_json_run :: "string \<Rightarrow> step list \<times> (py_error + json)" where
  "LocalMiniPestMA_extract_json_run text =
     (case json_loads (strip text) of
        Some v \<Rightarrow> ([ParseWhole], Inr v)
      | None \<Rightarrow>
          (case try_patterns json_patterns text of
             (l1, Some v) \<Rightarrow> (ParseWhole # l1, Inr v)
           | (l1, None) \<Rightarrow>
               (case try_markers markers text of
                  (l2, Inr (Some v)) \<Rightarrow> (ParseWhole # l1 @ l2, Inr v)
                | (l2, Inl e) \<Rightarrow> (ParseWhole # l1 @ l2, Inl e)
                | (l2, Inr None) \<Rightarrow>
                    (ParseWhole # l1 @ l2,
                     Inl (new_JSONDecodeError
                       [''Could not extract valid JSON from: '' @ take 200 text @ ''...''])))))"

definition LocalMiniPestMA_extract_json :: "string \<Rightarrow> py_error + json" where
  "LocalMiniPestMA_extract_json text = snd (LocalMiniPestMA_extract_json_run text)"

subsection \<open>\<^verbatim>\<open>LocalMiniPestMA._create_fallback_json\<close>\<close>

definition LocalMiniPestMA_create_fallback_json :: "string \<Rightarrow> string \<Rightarrow> json" where
  "LocalMiniPestMA_create_fallback_json agent_type error_msg =
     (if agent_type = ''diagnoser'' then
        JObj [
          (''primary_diagnosis'', JStr ''Analysis failed - JSON parsing error''),
          (''primary_confidence'', JInt 1),
          (''alternative_diagnosis'', JStr ''Unable to determine''),
          (''alternative_confidence'', JInt 1),
          (''image_text_correlation'', JStr ''no_image''),
          (''key_symptoms_observed'', JStr ''Parsing error occurred''),
          (''visual_evidence_quality'', JStr ''none''),
          (''error_flags'', JObj [
             (''equally_likely'', JBool False),
             (''contradictory_symptoms'', JBool False),
             (''insufficient_evidence'', JBool True)]),
          (''diagnostic_reasoning'', JStr (''JSON parsing failed: '' @ error_msg))]
      else if agent_type = ''validator'' then
        JObj [
          (''primary_diagnosis_valid'', JBool False),
          (''primary_confidence_adjustment'', JInt (- 3)),
          (''alternative_diagnosis_preferred'', JBool False),
          (''critical_concerns'', JStr (''Validation failed due to parsing error: '' @ error_msg)),
          (''evidence_quality_assessment'', JStr ''weak''),
          (''overlooked_factors'', JStr ''Unable to assess due to parsing error''),
          (''bias_detection'', JStr ''none identified''),
          (''additional_diagnostics_needed'', JStr ''Retry analysis with corrected prompts''),
          (''final_recommendation'', JStr ''request_expert'')]
      else JObj [])"

text \<open>\<open>d[k]\<close> on a value that is a \<^verbatim>\<open>dict\<close>; \<open>None\<close> for a missing key or another value.\<close>

fun get :: "json \<Rightarrow> string \<Rightarrow> json option" where
  "get (JObj ps) k = map_of ps k"
| "get j k = None"

fun is_dict :: "json \<Rightarrow> bool" where
  "is_dict (JObj ps) = True"
| "is_dict j = False"

subsection \<open>\<^verbatim>\<open>LocalMiniPestMA.analyze_plant_problem\<close>\<close>

text \<open>The table \<^verbatim>\<open>self.agents\<close>; the text of a system prompt is named by its agent.\<close>

datatype agent = critical_diagnoser | skeptical_validator | conservative_advisor

fun agent_model :: "agent \<Rightarrow> string" where
  "agent_model critical_diagnoser = ''mistral-small3.2:24b''"
| "agent_model skeptical_validator = ''gemma3:27b''"
| "agent_model conservative_advisor = ''phi4:14b''"

text \<open>
  The arguments of \<^verbatim>\<open>ollama.generate\<close>.  A prompt is held by the values the f-string
  puts into its fixed text: the description, whether an image is given, and the records
  that \<^verbatim>\<open>json.dumps(..., indent=2)\<close> writes into it.
\<close>

datatype prompt =
    DiagnosisPrompt string bool
  | ValidationPrompt string json
  | AdvisoryPrompt string json json

record gen_options =
  temperature :: real
  num_predict :: nat
  top_p :: real

record request =
  req_model :: string
  req_prompt :: prompt
  req_system :: agent
  req_images :: "string list option"
  req_options :: gen_options

text \<open>A stage's entry of \<^verbatim>\<open>results\<close>: a \<^verbatim>\<open>dict\<close> in which a key may be absent.\<close>

record stage_result =
  response_json :: "json option"
  response_text :: "string option"
  response :: "string option"
  time :: "real option"
  model :: "string option"
  status :: string
  error :: "string option"
  raw_response :: "string option"

definition empty_result :: stage_result where
  "empty_result = \<lparr>response_json = None, response_text = None, response = None, time = None,
     model = None, status = [], error = None, raw_response = None\<rparr>"

record run_metadata =
  timestamp :: real
  problem :: string
  total_time :: "real option"

record analysis_run =
  metadata :: run_metadata
  diagnoser :: "stage_result option"
  validator :: "stage_result option"
  advisor :: "stage_result option"

text \<open>The truth value of an \<^verbatim>\<open>Optional[str]\<close>: \<^verbatim>\<open>None\<close> and the empty string are false.\<close>

fun truthy :: "string option \<Rightarrow> bool" where
  "truthy None = False"
| "truthy (Some p) = (p \<noteq> [])"

definition diagnoser_request :: "string \<Rightarrow> string option \<Rightarrow> request" where
  "diagnoser_request user_description image_path =
     \<lparr>req_model = agent_model critical_diagnoser,
      req_prompt = DiagnosisPrompt user_description (truthy image_path),
      req_system = critical_diagnoser,
      req_images = (if truthy image_path then Some [the image_path] else None),
      req_options = \<lparr>temperature = 0.05, num_predict = 500, top_p = 0.9\<rparr>\<rparr>"

definition validator_request :: "string \<Rightarrow> json \<Rightarrow> request" where
  "validator_request user_description diag_json =
     \<lparr>req_model = agent_model skeptical_validator,
      req_prompt = ValidationPrompt user_description diag_json,
      req_system = skeptical_validator,
      req_images = None,
      req_options = \<lparr>temperature = 0.2, num_predict = 400, top_p = 0.9\<rparr>\<rparr>"

definition advisor_request :: "string \<Rightarrow> json \<Rightarrow> json \<Rightarrow> request" where
  "advisor_request user_description diag_json valid_json =
     \<lparr>req_model = agent_model conservative_advisor,
      req_prompt = AdvisoryPrompt user_description diag_json valid_json,
      req_system = conservative_advisor,
      req_images = None,
      req_options = \<lparr>temperature = 0.15, num_predict = 400, top_p = 0.9\<rparr>\<rparr>"

text \<open>
  The model call is a parameter \<open>generate\<close>: it returns the text
  \<^verbatim>\<open>response['response']\<close> or raises.  The clock is a parameter too: \<open>clock n\<close> is what
  the \<open>n\<close>-th call of \<^verbatim>\<open>time.time()\<close> in the run returns.

  Stage 1.  The inner \<^verbatim>\<open>try\<close> catches \<^verbatim>\<open>json.JSONDecodeError\<close> only; every other
  exception of the stage reaches the outer \<^verbatim>\<open>except Exception\<close>, whose branch returns
  from the function.  The second component is \<^verbatim>\<open>diag_json\<close>, \<open>None\<close> when the function
  returns there.
\<close>

definition diagnoser_stage ::
  "(request \<Rightarrow> py_error + string) \<Rightarrow> (nat \<Rightarrow> real) \<Rightarrow> string \<Rightarrow> string option \<Rightarrow>
     stage_result \<times> json option" where
  "diagnoser_stage generate clock user_description image_path =
     (let stage_start = clock 2;
          failed = (\<lambda>e. (empty_result\<lparr>status := ''error'', error := Some (str_of e)\<rparr>, None))
      in case generate (diagnoser_request user_description image_path) of
           Inl e \<Rightarrow> failed e
         | Inr diag_response \<Rightarrow>
             (case LocalMiniPestMA_extract_json diag_response of
                Inr diag_json \<Rightarrow>
                  (empty_result\<lparr>response_json := Some diag_json,
                     response_text := Some diag_response,
                     time := Some (clock 3 - stage_start),
                     model := Some (agent_model critical_diagnoser),
                     status := ''success''\<rparr>,
                   Some diag_json)
              | Inl e \<Rightarrow>
                  if is_JSONDecodeError e then
                    (let fallback_json = LocalMiniPestMA_create_fallback_json ''diagnoser'' (str_of e)
                     in (empty_result\<lparr>response_json := Some fallback_json,
                           response_text := Some diag_response,
                           time := Some (clock 3 - stage_start),
                           model := Some (agent_model critical_diagnoser),
                           status := ''json_error_recovered'',
                           error := Some (''JSON parsing failed, using fallback: '' @ str_of e),
                           raw_response := Some diag_response\<rparr>,
                         Some fallback_json))
                  else failed e))"

text \<open>Stage 2.  The outer handler builds the fallback record and the function goes on.\<close>

definition validator_stage ::
  "(request \<Rightarrow> py_error + string) \<Rightarrow> (nat \<Rightarrow> real) \<Rightarrow> string \<Rightarrow> json \<Rightarrow>
     stage_result \<times> json" where
  "validator_stage generate clock user_description diag_json =
     (let stage_start = clock 4;
          failed = (\<lambda>e.
            (let valid_json = LocalMiniPestMA_create_fallback_json ''validator'' (str_of e)
             in (empty_result\<lparr>response_json := Some valid_json,
                   status := ''error_recovered'',
                   error := Some (str_of e),
                   time := Some (clock 5 - stage_start)\<rparr>,
                 valid_json)))
      in case generate (validator_request user_description diag_json) of
           Inl e \<Rightarrow> failed e
         | Inr valid_response \<Rightarrow>
             (case LocalMiniPestMA_extract_json valid_response of
                Inr valid_json \<Rightarrow>
                  (empty_result\<lparr>response_json := Some valid_json,
                     response_text := Some valid_response,
                     time := Some (clock 5 - stage_start),
                     model := Some (agent_model skeptical_validator),
                     status := ''success''\<rparr>,
                   valid_json)
              | Inl e \<Rightarrow>
                  if is_JSONDecodeError e then
                    (let fallback_json = LocalMiniPestMA_create_fallback_json ''validator'' (str_of e)
                     in (empty_result\<lparr>response_json := Some fallback_json,
                           response_text := Some valid_response,
                           time := Some (clock 5 - stage_start),
                           model := Some (agent_model skeptical_validator),
                           status := ''json_error_recovered'',
                           error := Some (''JSON parsing failed, using fallback: '' @ str_of e),
                           raw_response := Some valid_response\<rparr>,
                         fallback_json))
                  else failed e))"

text \<open>Stage 3: the text is stored as it is.  The second component is the number of
  clock readings the stage made after its first.\<close>

definition advisor_stage ::
  "(request \<Rightarrow> py_error + string) \<Rightarrow> (nat \<Rightarrow> real) \<Rightarrow> string \<Rightarrow> json \<Rightarrow> json \<Rightarrow>
     stage_result \<times> nat" where
  "advisor_stage generate clock user_description diag_json valid_json =
     (let stage_start = clock 6
      in case generate (advisor_request user_description diag_json valid_json) of
           Inr advisor_response \<Rightarrow>
             (empty_result\<lparr>response := Some advisor_response,
                time := Some (clock 7 - stage_start),
                model := Some (agent_model conservative_advisor),
                status := ''success''\<rparr>, 1)
         | Inl e \<Rightarrow> (empty_result\<lparr>status := ''error'', error := Some (str_of e)\<rparr>, 0))"

text \<open>
  The whole run.  \<open>history\<close> is \<^verbatim>\<open>self.analysis_history\<close> before the call; the result
  is the returned \<^verbatim>\<open>results\<close> and the history after the call.
\<close>

definition analyze_plant_problem ::
  "(request \<Rightarrow> py_error + string) \<Rightarrow> (nat \<Rightarrow> real) \<Rightarrow> analysis_run list \<Rightarrow>
     string \<Rightarrow> string option \<Rightarrow> analysis_run \<times> analysis_run list" where
  "analyze_plant_problem generate clock history user_description image_path =
     (let analysis_start = clock 0;
          results = \<lparr>metadata = \<lparr>timestamp = clock 1, problem = user_description,
                                   total_time = None\<rparr>,
                     diagnoser = None, validator = None, advisor = None\<rparr>
      in case diagnoser_stage generate clock user_description image_path of
           (d, None) \<Rightarrow> (results\<lparr>diagnoser := Some d\<rparr>, history)
         | (d, Some diag_json) \<Rightarrow>
             (case validator_stage generate clock user_description diag_json of
                (v, valid_json) \<Rightarrow>
                  (case advisor_stage generate clock user_description diag_json valid_json of
                     (a, n) \<Rightarrow>
                       (let total = clock (7 + n) - analysis_start;
                            results = results\<lparr>diagnoser := Some d, validator := Some v,
                                        advisor := Some a,
                                        metadata := (metadata results)\<lparr>total_time := Some total\<rparr>\<rparr>
                        in (results, history @ [results])))))"

subsection \<open>\<^verbatim>\<open>StreamlitMiniPestMA\<close>: \<^verbatim>\<open>_extract_json\<close> and \<^verbatim>\<open>_create_fallback_json\<close>\<close>

text \<open>The web application has its own copies of the two functions, with their own
  lists of patterns.\<close>

definition st_json_patterns :: "regex list" where
  "st_json_patterns =
     [Seq (Lit CHR ''{'') (Seq (Star (NotIn ''{}''))
        (Seq (Star (Seq (Lit CHR ''{'') (Seq (Star (NotIn ''{}''))
           (Seq (Lit CHR ''}'') (Star (NotIn ''{}''))))))
          (Lit CHR ''}''))),
      Seq (Lit CHR ''{'')
        (Seq (Star (Alt (NotIn ''{}'') (Seq (Lit CHR ''{'') (Seq (Star (NotIn ''{}''))
           (Lit CHR ''}'')))))
          (Lit CHR ''}''))]"

definition st_markers :: "regex list" where
  "st_markers =
     [Seq (lits ''```json'') (Seq (Star Space) (Seq (Group (Lazy Dot)) (Seq (Star Space)
        (lits ''```'')))),
      Seq (lits ''```'') (Seq (Star Space) (Seq (Group (Lazy Dot)) (Seq (Star Space)
        (lits ''```'')))),
      Seq (Lit CHR ''{'') (Seq (Star Dot) (Lit CHR ''}''))]"

definition StreamlitMiniPestMA_extract_json :: "string \<Rightarrow> py_error + json" where
  "StreamlitMiniPestMA_extract_json text =
     (case json_loads (strip text) of
        Some v \<Rightarrow> Inr v
      | None \<Rightarrow>
          (case snd (try_patterns st_json_patterns text) of
             Some v \<Rightarrow> Inr v
           | None \<Rightarrow>
               (case snd (try_markers st_markers text) of
                  Inr (Some v) \<Rightarrow> Inr v
                | Inl e \<Rightarrow> Inl e
                | Inr None \<Rightarrow>
                    Inl (new_JSONDecodeError
                      [''Could not extract valid JSON from: '' @ take 200 text @ ''...'']))))"

definition StreamlitMiniPestMA_create_fallback_json :: "string \<Rightarrow> string \<Rightarrow> json" where
  "StreamlitMiniPestMA_create_fallback_json agent_type error_msg =
     (if agent_type = ''diagnoser'' then
        JObj [
          (''primary_diagnosis'', JStr ''Analysis failed - JSON parsing error''),
          (''primary_confidence'', JInt 1),
          (''alternative_diagnosis'', JStr ''Unable to determine''),
          (''alternative_confidence'', JInt 1),
          (''image_text_correlation'', JStr ''no_image''),
          (''key_symptoms_observed'', JStr ''Parsing error occurred''),
          (''visual_evidence_quality'', JStr ''none''),
          (''error_flags'', JObj [
             (''equally_likely'', JBool False),
             (''contradictory_symptoms'', JBool False),
             (''insufficient_evidence'', JBool True)]),
          (''diagnostic_reasoning'', JStr (''JSON parsing failed: '' @ error_msg))]
      else if agent_type = ''validator'' then
        JObj [
          (''primary_diagnosis_valid'', JBool False),
          (''primary_confidence_adjustment'', JInt (- 3)),
          (''alternative_diagnosis_preferred'', JBool False),
          (''critical_concerns'', JStr (''Validation failed due to parsing error: '' @ error_msg)),
          (''evidence_quality_assessment'', JStr ''weak''),
          (''overlooked_factors'', JStr ''Unable to assess due to parsing error''),
          (''bias_detection'', JStr ''none identified''),
          (''additional_diagnostics_needed'', JStr ''Retry analysis with corrected prompts''),
          (''final_recommendation'', JStr ''request_expert'')]
      else JObj [])"

subsection \<open>Model calls and a clock for concrete runs\<close>

text \<open>A model service that cannot be reached, one that answers every request in prose,
  and one whose validator model fails while the other two answer.\<close>

definition generate_down :: "request \<Rightarrow> py_error + string" where
  "generate_down req = Inl (OtherException ''connection refused'')"

definition generate_prose :: "request \<Rightarrow> py_error + string" where
  "generate_prose req = Inr ''I cannot determine the diagnosis.''"

definition diagnosis_text :: string where
  \<open>diagnosis_text = ''{"primary_diagnosis":"rust","primary_confidence":8}''\<close>

definition diagnosis_record :: json where
  "diagnosis_record = JObj [(''primary_diagnosis'', JStr ''rust''), (''primary_confidence'', JInt 8)]"

definition generate_validator_down :: "request \<Rightarrow> py_error + string" where
  "generate_validator_down req =
     (if req_system req = critical_diagnoser then Inr diagnosis_text
      else if req_system req = skeptical_validator then Inl (OtherException ''model not found'')
      else Inr ''Monitor the plant for two weeks.'')"

definition generate_validator_prose :: "request \<Rightarrow> py_error + string" where
  "generate_validator_prose req =
     (if req_system req = critical_diagnoser then Inr diagnosis_text
      else if req_system req = skeptical_validator then Inr ''I cannot determine the diagnosis.''
      else Inr ''Monitor the plant for two weeks.'')"

definition tick_clock :: "nat \<Rightarrow> real" where
  "tick_clock n = real n"


















section \<open>Properties\<close>

subsection \<open>Evaluation and shared lemmas\<close>

lemmas loads_simps = json_loads_def strip_def py_isspace_def json_ws_def scan_word_def
  after_prefix_def scan_number_def scan_int_part_def scan_frac_def scan_exp_def is_digit_def
  digits_val_def unescape_def

lemmas extract_simps = LocalMiniPestMA_extract_json_def LocalMiniPestMA_extract_json_run_def
  json_patterns_def pattern_simple_nested_def pattern_complex_nested_def not_brace_def
  markers_def marker_json_fence_def marker_fence_def marker_braces_def group1_def

lemma extract_run_direct:
  "json_loads (strip text) = Some v \<Longrightarrow> LocalMiniPestMA_extract_json_run text = ([ParseWhole], Inr v)"
  by (simp add: LocalMiniPestMA_extract_json_run_def)

lemma st_patterns_eq: "st_json_patterns = json_patterns"
  by (simp add: st_json_patterns_def json_patterns_def pattern_simple_nested_def
      pattern_complex_nested_def not_brace_def)

lemma st_markers_eq: "st_markers = markers"
  by (simp add: st_markers_def markers_def marker_json_fence_def marker_fence_def
      marker_braces_def)

subsection \<open>Fallback records\<close>

text \<open>
  C3.  For every error detail, the diagnosis fallback has both confidences 1, correlation
  \<^verbatim>\<open>no_image\<close>, evidence quality \<^verbatim>\<open>none\<close> and only the flag \<^verbatim>\<open>insufficient_evidence\<close>
  true; the validation fallback has validity false, confidence adjustment -3, evidence
  assessment \<^verbatim>\<open>weak\<close> and final recommendation \<^verbatim>\<open>request_expert\<close>.
\<close>

theorem fallback_caution_bias:
  "get (LocalMiniPestMA_create_fallback_json ''diagnoser'' error_detail) ''primary_confidence'' = Some (JInt 1)
   \<and> get (LocalMiniPestMA_create_fallback_json ''diagnoser'' error_detail) ''alternative_confidence'' = Some (JInt 1)
   \<and> get (LocalMiniPestMA_create_fallback_json ''diagnoser'' error_detail) ''image_text_correlation'' = Some (JStr ''no_image'')
   \<and> get (LocalMiniPestMA_create_fallback_json ''diagnoser'' error_detail) ''visual_evidence_quality'' = Some (JStr ''none'')
   \<and> get (LocalMiniPestMA_create_fallback_json ''diagnoser'' error_detail) ''error_flags'' =
         Some (JObj [(''equally_likely'', JBool False), (''contradictory_symptoms'', JBool False),
                     (''insufficient_evidence'', JBool True)])
   \<and> get (LocalMiniPestMA_create_fallback_json ''validator'' error_detail) ''primary_diagnosis_valid'' = Some (JBool False)
   \<and> get (LocalMiniPestMA_create_fallback_json ''validator'' error_detail) ''primary_confidence_adjustment'' = Some (JInt (- 3))
   \<and> get (LocalMiniPestMA_create_fallback_json ''validator'' error_detail) ''evidence_quality_assessment'' = Some (JStr ''weak'')
   \<and> get (LocalMiniPestMA_create_fallback_json ''validator'' error_detail) ''final_recommendation'' = Some (JStr ''request_expert'')"
  by (simp add: LocalMiniPestMA_create_fallback_json_def)

text \<open>
  C10.  The two implementations agree: on every text the two \<^verbatim>\<open>_extract_json\<close> return
  the same value or raise the same exception, and for every stage kind and error detail
  the two \<^verbatim>\<open>_create_fallback_json\<close> build the same record.
\<close>

theorem cli_and_web_core_equal:
  "StreamlitMiniPestMA_extract_json text = LocalMiniPestMA_extract_json text
   \<and> StreamlitMiniPestMA_create_fallback_json stage_kind error_detail =
       LocalMiniPestMA_create_fallback_json stage_kind error_detail"
  by (simp add: StreamlitMiniPestMA_extract_json_def LocalMiniPestMA_extract_json_def
      LocalMiniPestMA_extract_json_run_def st_patterns_eq st_markers_eq
      StreamlitMiniPestMA_create_fallback_json_def LocalMiniPestMA_create_fallback_json_def
      split: option.splits prod.splits sum.splits)

subsection \<open>The extraction cascade\<close>

text \<open>
  C4.  When the trimmed text is itself a record (it parses to a \<^verbatim>\<open>dict\<close>),
  \<^verbatim>\<open>_extract_json\<close> returns that record, and the parse of the whole text is the only step
  of the cascade the call goes through: no pattern is scanned, no fence is searched.
\<close>

theorem direct_parse_priority:
  "json_loads (strip text) = Some (JObj ps) \<Longrightarrow>
     LocalMiniPestMA_extract_json text = Inr (JObj ps)
     \<and> fst (LocalMiniPestMA_extract_json_run text) = [ParseWhole]"
  by (simp add: LocalMiniPestMA_extract_json_def extract_run_direct)

theorem direct_parse_priority_witness:
  \<open>json_loads (strip '' {"primary_diagnosis":"leaf spot","primary_confidence":7} '') =
     Some (JObj [(''primary_diagnosis'', JStr ''leaf spot''), (''primary_confidence'', JInt 7)])
   \<and> LocalMiniPestMA_extract_json '' {"primary_diagnosis":"leaf spot","primary_confidence":7} '' =
     Inr (JObj [(''primary_diagnosis'', JStr ''leaf spot''), (''primary_confidence'', JInt 7)])
   \<and> fst (LocalMiniPestMA_extract_json_run '' {"primary_diagnosis":"leaf spot","primary_confidence":7} '') = [ParseWhole]\<close>
proof -
  have h: \<open>json_loads (strip '' {"primary_diagnosis":"leaf spot","primary_confidence":7} '') =
     Some (JObj [(''primary_diagnosis'', JStr ''leaf spot''), (''primary_confidence'', JInt 7)])\<close>
    by (simp add: loads_simps)
  from direct_parse_priority [OF h] h show ?thesis by simp
qed

text \<open>
  C9.  Whenever the trimmed text parses to a value that is not a \<^verbatim>\<open>dict\<close>, the first
  step returns that value as the result of the extraction; the texts \<^verbatim>\<open>null\<close>, \<^verbatim>\<open>5\<close>
  and \<^verbatim>\<open>[1, 2]\<close> are such inputs.
\<close>

theorem extract_returns_non_record:
  \<open>(\<forall>text v. json_loads (strip text) = Some v \<and> \<not> is_dict v \<longrightarrow>
       LocalMiniPestMA_extract_json text = Inr v)
   \<and> LocalMiniPestMA_extract_json ''null'' = Inr JNull
   \<and> LocalMiniPestMA_extract_json ''5'' = Inr (JInt 5)
   \<and> LocalMiniPestMA_extract_json ''[1, 2]'' = Inr (JArr [JInt 1, JInt 2])\<close>
proof -
  have a: "json_loads (strip ''null'') = Some JNull" by (simp add: loads_simps)
  have b: "json_loads (strip ''5'') = Some (JInt 5)" by (simp add: loads_simps)
  have c: "json_loads (strip ''[1, 2]'') = Some (JArr [JInt 1, JInt 2])" by (simp add: loads_simps)
  show ?thesis
    using a b c by (simp add: LocalMiniPestMA_extract_json_def extract_run_direct)
qed

theorem extract_returns_non_record_witness:
  \<open>json_loads (strip '' true '') = Some (JBool True) \<and> \<not> is_dict (JBool True)
   \<and> LocalMiniPestMA_extract_json '' true '' = Inr (JBool True)\<close>
proof -
  have h: "json_loads (strip '' true '') = Some (JBool True)" by (simp add: loads_simps)
  from extract_returns_non_record have
    "json_loads (strip '' true '') = Some (JBool True) \<and> \<not> is_dict (JBool True) \<longrightarrow>
       LocalMiniPestMA_extract_json '' true '' = Inr (JBool True)"
    by blast
  with h show ?thesis by simp
qed

subsection \<open>The pipeline\<close>

lemmas stage_simps = analyze_plant_problem_def diagnoser_stage_def validator_stage_def
  advisor_stage_def empty_result_def

lemma try_markers_no_JSONDecodeError:
  "try_markers ps text = (l, Inl e) \<Longrightarrow> \<not> is_JSONDecodeError e"
  by (induction ps arbitrary: l)
    (auto simp: Let_def split: option.splits sum.splits prod.splits)

lemma extract_failure_no_JSONDecodeError:
  "LocalMiniPestMA_extract_json text = Inl e \<Longrightarrow> \<not> is_JSONDecodeError e"
  by (auto simp: LocalMiniPestMA_extract_json_def LocalMiniPestMA_extract_json_run_def
      split: option.splits sum.splits prod.splits dest: try_markers_no_JSONDecodeError)

lemma diagnoser_stage_extraction_failure:
  assumes "generate (diagnoser_request u img) = Inr answer"
    and "LocalMiniPestMA_extract_json answer = Inl e"
  shows "diagnoser_stage generate clock u img =
    (empty_result\<lparr>status := ''error'', error := Some (str_of e)\<rparr>, None)"
  using assms extract_failure_no_JSONDecodeError [OF assms(2)]
  by (simp add: diagnoser_stage_def)

lemma extract_prose:
  "LocalMiniPestMA_extract_json ''I cannot determine the diagnosis.'' = Inl (TypeError missing_args_message)"
  by (simp add: extract_simps loads_simps)

lemma extract_diagnosis_text:
  "LocalMiniPestMA_extract_json diagnosis_text = Inr diagnosis_record"
  by (simp add: LocalMiniPestMA_extract_json_def extract_run_direct diagnosis_text_def
      diagnosis_record_def loads_simps)

lemma diagnoser_stage_validator_down:
  "diagnoser_stage generate_validator_down tick_clock ''white powdery spots on leaves'' None =
     (empty_result\<lparr>response_json := Some diagnosis_record,
        response_text := Some diagnosis_text, time := Some 1,
        model := Some ''mistral-small3.2:24b'', status := ''success''\<rparr>,
      Some diagnosis_record)"
  by (simp add: diagnoser_stage_def generate_validator_down_def diagnoser_request_def
      extract_diagnosis_text tick_clock_def)

text \<open>
  C2.  When the model call of the diagnosis stage raises, the run ends there: the
  diagnoser entry has status \<^verbatim>\<open>error\<close> and there is no validator and no advisor entry.
  When the diagnosis stage has resolved a record and the model call of the validation
  stage raises, the validator entry holds the fallback validation record built from the
  error, with status \<^verbatim>\<open>error_recovered\<close>; the advisory stage is run with the diagnosis
  record and that fallback record, its entry is stored (\<^verbatim>\<open>success\<close> with the text when
  its model call answers, \<^verbatim>\<open>error\<close> when it raises), and the run reaches its end, where
  the total time is set.
\<close>

theorem asymmetric_fatality:
  "(generate (diagnoser_request u img) = Inl e \<longrightarrow>
      diagnoser (fst (analyze_plant_problem generate clock h u img)) =
        Some (empty_result\<lparr>status := ''error'', error := Some (str_of e)\<rparr>)
      \<and> validator (fst (analyze_plant_problem generate clock h u img)) = None
      \<and> advisor (fst (analyze_plant_problem generate clock h u img)) = None)
   \<and> (diagnoser_stage generate clock u img = (d, Some diag_json)
       \<and> generate (validator_request u diag_json) = Inl e' \<longrightarrow>
      (let r = fst (analyze_plant_problem generate clock h u img);
           fallback = LocalMiniPestMA_create_fallback_json ''validator'' (str_of e')
       in validator r = Some (empty_result\<lparr>response_json := Some fallback,
              status := ''error_recovered'', error := Some (str_of e'),
              time := Some (clock 5 - clock 4)\<rparr>)
          \<and> advisor r = Some (fst (advisor_stage generate clock u diag_json fallback))
          \<and> (case generate (advisor_request u diag_json fallback) of
                Inr t \<Rightarrow> (\<exists>a. advisor r = Some a \<and> status a = ''success'' \<and> response a = Some t)
              | Inl x \<Rightarrow> (\<exists>a. advisor r = Some a \<and> status a = ''error''))
          \<and> total_time (metadata r) \<noteq> None))"
  by (auto simp: stage_simps Let_def split: sum.splits option.splits prod.splits)

theorem asymmetric_fatality_witness:
  "generate_down (diagnoser_request ''white powdery spots on leaves'' None) =
     Inl (OtherException ''connection refused'')
   \<and> validator (fst (analyze_plant_problem generate_down tick_clock []
        ''white powdery spots on leaves'' None)) = None
   \<and> advisor (fst (analyze_plant_problem generate_down tick_clock []
        ''white powdery spots on leaves'' None)) = None
   \<and> generate_validator_down (validator_request ''white powdery spots on leaves'' diagnosis_record) =
       Inl (OtherException ''model not found'')
   \<and> validator (fst (analyze_plant_problem generate_validator_down tick_clock []
        ''white powdery spots on leaves'' None)) =
       Some (empty_result\<lparr>response_json :=
          Some (LocalMiniPestMA_create_fallback_json ''validator'' ''model not found''),
          status := ''error_recovered'', error := Some ''model not found'', time := Some 1\<rparr>)
   \<and> advisor (fst (analyze_plant_problem generate_validator_down tick_clock []
        ''white powdery spots on leaves'' None)) =
       Some (empty_result\<lparr>response := Some ''Monitor the plant for two weeks.'',
          time := Some 1, model := Some ''phi4:14b'', status := ''success''\<rparr>)"
proof -
  have h1: "generate_down (diagnoser_request ''white powdery spots on leaves'' None) =
      Inl (OtherException ''connection refused'')"
    by (simp add: generate_down_def)
  have h3: "generate_validator_down
      (validator_request ''white powdery spots on leaves'' diagnosis_record) =
      Inl (OtherException ''model not found'')"
    by (simp add: generate_validator_down_def validator_request_def)
  note a = asymmetric_fatality [where generate = generate_down and clock = tick_clock
      and h = "[]" and u = "''white powdery spots on leaves''" and img = None,
      THEN conjunct1, rule_format, OF h1]
  note b = asymmetric_fatality [where generate = generate_validator_down and clock = tick_clock
      and h = "[]" and u = "''white powdery spots on leaves''" and img = None,
      THEN conjunct2, rule_format, OF conjI [OF diagnoser_stage_validator_down h3]]
  show ?thesis
    using h1 h3 a b
    by (simp add: Let_def advisor_stage_def generate_validator_down_def advisor_request_def
        tick_clock_def)
qed

lemma diagnoser_stage_validator_prose:
  "diagnoser_stage generate_validator_prose tick_clock ''white powdery spots on leaves'' None =
     (empty_result\<lparr>response_json := Some diagnosis_record,
        response_text := Some diagnosis_text, time := Some 1,
        model := Some ''mistral-small3.2:24b'', status := ''success''\<rparr>,
      Some diagnosis_record)"
  by (simp add: diagnoser_stage_def generate_validator_prose_def diagnoser_request_def
      extract_diagnosis_text tick_clock_def)

lemma validator_stage_validator_prose:
  "validator_stage generate_validator_prose tick_clock ''white powdery spots on leaves''
     diagnosis_record =
     (empty_result\<lparr>response_json :=
          Some (LocalMiniPestMA_create_fallback_json ''validator'' missing_args_message),
        status := ''error_recovered'', error := Some missing_args_message,
        time := Some 1\<rparr>,
      LocalMiniPestMA_create_fallback_json ''validator'' missing_args_message)"
  by (simp add: validator_stage_def generate_validator_prose_def validator_request_def
      extract_prose tick_clock_def Let_def)

text \<open>
  C7.  Two runs in which the model answers \<^verbatim>\<open>I cannot determine the diagnosis.\<close> and the
  answer is not kept.  In the first the diagnosis model gives that answer: the diagnoser
  entry has neither \<^verbatim>\<open>response_text\<close> nor \<^verbatim>\<open>raw_response\<close>.  In the second the
  validator model gives it: the validator entry is the one of the outer handler, with
  status \<^verbatim>\<open>error_recovered\<close> and neither \<^verbatim>\<open>response_text\<close> nor \<^verbatim>\<open>raw_response\<close>.
\<close>

theorem model_answer_dropped_on_extraction_failure:
  "generate_prose (diagnoser_request ''white powdery spots on leaves'' None) =
     Inr ''I cannot determine the diagnosis.''
   \<and> response_text (the (diagnoser (fst (analyze_plant_problem generate_prose tick_clock []
        ''white powdery spots on leaves'' None)))) = None
   \<and> raw_response (the (diagnoser (fst (analyze_plant_problem generate_prose tick_clock []
        ''white powdery spots on leaves'' None)))) = None
   \<and> generate_validator_prose (validator_request ''white powdery spots on leaves''
        diagnosis_record) = Inr ''I cannot determine the diagnosis.''
   \<and> validator (fst (analyze_plant_problem generate_validator_prose tick_clock []
        ''white powdery spots on leaves'' None)) =
       Some (empty_result\<lparr>response_json :=
          Some (LocalMiniPestMA_create_fallback_json ''validator'' missing_args_message),
          status := ''error_recovered'', error := Some missing_args_message,
          time := Some 1\<rparr>)
   \<and> response_text (the (validator (fst (analyze_plant_problem generate_validator_prose
        tick_clock [] ''white powdery spots on leaves'' None)))) = None
   \<and> raw_response (the (validator (fst (analyze_plant_problem generate_validator_prose
        tick_clock [] ''white powdery spots on leaves'' None)))) = None"
proof -
  have d: "diagnoser_stage generate_prose tick_clock ''white powdery spots on leaves'' None =
      (empty_result\<lparr>status := ''error'', error := Some missing_args_message\<rparr>, None)"
    using diagnoser_stage_extraction_failure [where generate = generate_prose
        and u = "''white powdery spots on leaves''" and img = None
        and answer = "''I cannot determine the diagnosis.''"
        and e = "TypeError missing_args_message" and clock = tick_clock]
    by (simp add: generate_prose_def extract_prose)
  have v: "validator (fst (analyze_plant_problem generate_validator_prose tick_clock []
        ''white powdery spots on leaves'' None)) =
       Some (empty_result\<lparr>response_json :=
          Some (LocalMiniPestMA_create_fallback_json ''validator'' missing_args_message),
          status := ''error_recovered'', error := Some missing_args_message,
          time := Some 1\<rparr>)"
    by (simp add: analyze_plant_problem_def diagnoser_stage_validator_prose
        validator_stage_validator_prose Let_def split: prod.splits)
  show ?thesis
    by (simp add: v) (simp add: analyze_plant_problem_def d generate_prose_def
        generate_validator_prose_def validator_request_def empty_result_def)
qed

text \<open>
  C1.  The run on the description \<^verbatim>\<open>white powdery spots on leaves\<close> whose model answers
  \<^verbatim>\<open>I cannot determine the diagnosis.\<close>: the extraction fails, the exception is the
  \<^verbatim>\<open>TypeError\<close> of the constructor call and not a \<^verbatim>\<open>JSONDecodeError\<close>, so the handler that
  builds the fallback record is passed over; the diagnoser entry has status \<^verbatim>\<open>error\<close>,
  there is no validator and no advisor entry, and the history is left as it was.
\<close>

theorem extraction_failure_aborts_run:
  "analyze_plant_problem generate_prose tick_clock [] ''white powdery spots on leaves'' None =
     (\<lparr>metadata = \<lparr>timestamp = 1, problem = ''white powdery spots on leaves'', total_time = None\<rparr>,
       diagnoser = Some (empty_result\<lparr>status := ''error'', error := Some missing_args_message\<rparr>),
       validator = None, advisor = None\<rparr>, [])"
  by (simp add: analyze_plant_problem_def
      diagnoser_stage_extraction_failure [where answer = "''I cannot determine the diagnosis.''" and e = "TypeError missing_args_message"]
      generate_prose_def extract_prose tick_clock_def)

text \<open>
  C6.  On the text \<^verbatim>\<open>I cannot determine the diagnosis.\<close> the whole cascade fails and
  \<^verbatim>\<open>_extract_json\<close> raises \<^verbatim>\<open>TypeError\<close>, whose message is that of the constructor call
  and not the message with the first 200 characters of the text.
\<close>

theorem extraction_failure_raises_TypeError:
  "LocalMiniPestMA_extract_json ''I cannot determine the diagnosis.'' = Inl (TypeError missing_args_message)
   \<and> \<not> is_JSONDecodeError (TypeError missing_args_message)
   \<and> str_of (TypeError missing_args_message) \<noteq>
       ''Could not extract valid JSON from: '' @ take 200 ''I cannot determine the diagnosis.'' @ ''...''"
  by (simp add: extract_prose missing_args_message_def)

text \<open>
  C8.  The run whose model service cannot be reached ends in the diagnosis stage with
  status \<^verbatim>\<open>error\<close>, and the history, empty before the run, is empty after it.
\<close>

theorem aborted_run_not_appended:
  "snd (analyze_plant_problem generate_down tick_clock [] ''white powdery spots on leaves'' None) = []
   \<and> diagnoser (fst (analyze_plant_problem generate_down tick_clock [] ''white powdery spots on leaves'' None)) =
       Some (empty_result\<lparr>status := ''error'', error := Some ''connection refused''\<rparr>)"
  by (simp add: analyze_plant_problem_def diagnoser_stage_def generate_down_def)

subsection \<open>Records embedded in prose\<close>

text \<open>The loops over the matches return the first match that parses.\<close>

lemma try_matches_append:
  "try_matches (xs @ ys) = (case try_matches xs of Some v \<Rightarrow> Some v | None \<Rightarrow> try_matches ys)"
  by (induction xs) (auto split: option.splits)

lemma try_matches_first:
  "\<forall>b \<in> set before. json_loads (strip b) = None \<Longrightarrow> json_loads (strip m) = Some v \<Longrightarrow>
     try_matches (before @ m # rest) = Some v"
  by (induction before) auto

lemma first_parsing_match_returned:
  assumes "json_loads (strip text) = None"
    and "re_findall pattern_simple_nested text @ re_findall pattern_complex_nested text =
           before @ m # rest"
    and "\<forall>b \<in> set before. json_loads (strip b) = None"
    and "json_loads (strip m) = Some v"
  shows "LocalMiniPestMA_extract_json text = Inr v"
proof -
  have "try_matches (re_findall pattern_simple_nested text @
      re_findall pattern_complex_nested text) = Some v"
    using assms(2-4) by (simp add: try_matches_first)
  then have "snd (try_patterns json_patterns text) = Some v"
    by (auto simp: json_patterns_def try_matches_append split: option.splits prod.splits)
  with assms(1) show ?thesis
    by (auto simp: LocalMiniPestMA_extract_json_def LocalMiniPestMA_extract_json_run_def
        split: option.splits prod.splits)
qed




























end
